theory Spec2Isabelle
  imports Complex_Main "HOL-Library.Sublist"
begin

section \<open>Python values\<close>

text \<open>
  The candidates come out of \<^verbatim>\<open>json.loads\<close>, so a value is whatever JSON can hold:
  \<^verbatim>\<open>None\<close>, a bool, an int, a float, a str, a list or a dict with string keys.
  A finite float is given by the rational number it denotes. A dict is an association
  list in insertion order, read through \<open>map_of\<close>. A str is the UTF-8 bytes of its code
  points; the marker phrase and the field names are ASCII, where bytes and code points
  agree. A surrogate code point, which a JSON escape such as \<^verbatim>\<open>\ud800\<close> puts into a
  str, is the three bytes \<^verbatim>\<open>ED A0..BF 80..BF\<close> that the \<^verbatim>\<open>surrogatepass\<close> handler gives.
\<close>

datatype pyval =
    PNone
  | PBool bool
  | PInt int
  | PFloat rat
  | PStr string
  | PList "pyval list"
  | PDict "(string \<times> pyval) list"

type_synonym pydict = "(string \<times> pyval) list"

datatype error =
    AttributeError | KeyError | TypeError | ValueError | JSONDecodeError
  | OSError | UnicodeEncodeError

text \<open>
  Python's \<^verbatim>\<open>==\<close> and \<^verbatim>\<open>hash\<close> identify \<^verbatim>\<open>True\<close>, \<^verbatim>\<open>1\<close> and \<^verbatim>\<open>1.0\<close>; a set holds
  one element per such class. Lists and dicts are unhashable: looking one up in a set, or
  adding it, raises \<^verbatim>\<open>TypeError\<close>.
\<close>

datatype pykey = KNone | KNum rat | KStr string

fun hash_key :: "pyval \<Rightarrow> pykey option" where
  "hash_key PNone = Some KNone"
| "hash_key (PBool b) = Some (KNum (if b then 1 else 0))"
| "hash_key (PInt i) = Some (KNum (of_int i))"
| "hash_key (PFloat q) = Some (KNum q)"
| "hash_key (PStr s) = Some (KStr s)"
| "hash_key (PList xs) = None"
| "hash_key (PDict d) = None"

text \<open>Truth value of an object, as \<^verbatim>\<open>if not x\<close> tests it.\<close>

fun truthy :: "pyval \<Rightarrow> bool" where
  "truthy PNone = False"
| "truthy (PBool b) = b"
| "truthy (PInt i) = (i \<noteq> 0)"
| "truthy (PFloat q) = (q \<noteq> 0)"
| "truthy (PStr s) = (s \<noteq> [])"
| "truthy (PList xs) = (xs \<noteq> [])"
| "truthy (PDict d) = (d \<noteq> [])"

text \<open>
  What a \<^verbatim>\<open>for\<close> loop iterates over: the elements of a list, the one-character strings
  of a str, the keys of a dict; anything else is not iterable.
\<close>

fun py_iter :: "pyval \<Rightarrow> error + pyval list" where
  "py_iter (PList xs) = Inr xs"
| "py_iter (PStr s) = Inr (map (\<lambda>c. PStr [c]) s)"
| "py_iter (PDict d) = Inr (map PStr (remdups (map fst d)))"
| "py_iter v = Inl TypeError"

text \<open>\<^verbatim>\<open>d.pop(key, None)\<close>: the dict without the key.\<close>

definition dict_pop :: "string \<Rightarrow> pydict \<Rightarrow> pydict" where
  "dict_pop key d = filter (\<lambda>(k, v). k \<noteq> key) d"

definition dict_keys :: "pydict \<Rightarrow> string list" where
  "dict_keys d = map fst d"

text \<open>Decimal digits of an integer, as an f-string prints it.\<close>

fun str_nat :: "nat \<Rightarrow> string" where
  "str_nat n =
     (if n < 10 then [''0123456789'' ! n]
      else str_nat (n div 10) @ [''0123456789'' ! (n mod 10)])"

declare str_nat.simps [simp del]

definition str_int :: "int \<Rightarrow> string" where
  "str_int i = (if i < 0 then ''-'' @ str_nat (nat (- i)) else str_nat (nat i))"

text \<open>
  The strict UTF-8 codec refuses a str that holds a surrogate code point: the byte
  \<^verbatim>\<open>ED\<close> followed by a byte from \<^verbatim>\<open>A0\<close> on.
\<close>

fun has_surrogate :: "string \<Rightarrow> bool" where
  "has_surrogate (a # b # rest) =
     ((a = CHR 0xED \<and> (0xA0 :: nat) \<le> of_char b) \<or> has_surrogate (b # rest))"
| "has_surrogate s = False"

text \<open>
  Whether the text the csv writer makes of a cell can be written to a file opened with
  \<^verbatim>\<open>encoding="utf-8"\<close>. A str is written as it is; \<^verbatim>\<open>None\<close>, bools and numbers print
  in ASCII, and lists and dicts print through \<^verbatim>\<open>repr\<close>, which escapes surrogates.
\<close>

fun cell_encodable :: "pyval \<Rightarrow> bool" where
  "cell_encodable (PStr s) = (\<not> has_surrogate s)"
| "cell_encodable v = True"

section \<open>models/site.py\<close>

text \<open>\<^verbatim>\<open>Site.model_fields.keys()\<close>: the fields of \<^verbatim>\<open>Site\<close> in declaration order.\<close>

definition Site_model_fields :: "string list" where
  "Site_model_fields =
     [''name'', ''location'', ''price'', ''capacity'', ''rating'', ''reviews'', ''description'']"

section \<open>The world outside\<close>

text \<open>
  Standard output is a list of lines, one constructor per \<^verbatim>\<open>print\<close> of the source:
  \<^item> \<open>LoadingPage n\<close>: \<^verbatim>\<open>Loading page {n}...\<close>
  \<^item> \<open>NoResultsCheckError m\<close>: \<^verbatim>\<open>Error fetching page for 'No Results Found' check: {m}\<close>
  \<^item> \<open>ErrorFetchingPage n m\<close>: \<^verbatim>\<open>Error fetching page {n}: {m}\<close>
  \<^item> \<open>NoVenuesFound n\<close>: \<^verbatim>\<open>No venues found on page {n}.\<close>
  \<^item> \<open>ExtractedData v\<close>: \<^verbatim>\<open>Extracted data: {v}\<close>
  \<^item> \<open>ProcessingData v\<close>: \<^verbatim>\<open>Processing data: {v}\<close>
  \<^item> \<open>DuplicateVenue v\<close>: \<^verbatim>\<open>Duplicate venue '{v}' found. Skipping.\<close>
  \<^item> \<open>NoCompleteVenues n\<close>: \<^verbatim>\<open>No complete venues found on page {n}.\<close>
  \<^item> \<open>ExtractedVenues k n\<close>: \<^verbatim>\<open>Extracted {k} venues from page {n}.\<close>
  \<^item> \<open>NoDataToSave\<close>: \<^verbatim>\<open>No data to save\<close>
  \<^item> \<open>SavedSites k f\<close>: \<^verbatim>\<open>Saved {k} sites to '{f}'.\<close>
\<close>

datatype log_line =
    LoadingPage int
  | NoResultsCheckError "string option"
  | ErrorFetchingPage int "string option"
  | NoVenuesFound int
  | ExtractedData pyval
  | ProcessingData pyval
  | DuplicateVenue pyval
  | NoCompleteVenues int
  | ExtractedVenues nat int
  | NoDataToSave
  | SavedSites nat string

datatype cache_mode = ENABLED | DISABLED | READ_ONLY | WRITE_ONLY | BYPASS

text \<open>
  One call of \<^verbatim>\<open>crawler.arun\<close>: the url and the \<^verbatim>\<open>CrawlerRunConfig\<close>. The extraction
  strategy is opaque (\<open>'s\<close>); a config built without one holds \<open>None\<close>.
\<close>

record 's request =
  req_url :: string
  req_cache_mode :: cache_mode
  req_session_id :: string
  req_extraction_strategy :: "'s option"
  req_css_selector :: "string option"

record crawl_result =
  success :: bool
  cleaned_html :: "string option"
  extracted_content :: "string option"
  error_message :: "string option"

text \<open>
  A CSV file is its rows, a row its cells; the cell of a field the dict lacks is the
  writer's \<^verbatim>\<open>restval\<close>, the empty string. Quoting and line ends are the csv module's.
  The field \<open>writable\<close> says for which paths the operating system opens a file for
  writing: the directory exists, the permissions allow it, the path is no directory.
  A file that was opened takes every write the codec lets through; a device that fills
  up is outside the model.
\<close>

type_synonym csv_row = "pyval list"

record 's world =
  requests :: "'s request list"
  stdout :: "log_line list"
  files :: "string \<rightharpoonup> csv_row list"
  writable :: "string \<Rightarrow> bool"

text \<open>
  The crawler answers a request, possibly depending on the requests made before it.
\<close>

type_synonym 's crawler = "'s request list \<Rightarrow> 's request \<Rightarrow> crawl_result"

definition print_line :: "log_line \<Rightarrow> 's world \<Rightarrow> 's world" where
  "print_line l w = w\<lparr>stdout := stdout w @ [l]\<rparr>"

definition arun :: "'s crawler \<Rightarrow> 's request \<Rightarrow> 's world \<Rightarrow> crawl_result \<times> 's world" where
  "arun crawler req w = (crawler (requests w) req, w\<lparr>requests := requests w @ [req]\<rparr>)"

text \<open>
  \<^verbatim>\<open>open(filename, mode='w', ...)\<close>: a path with a null character raises
  \<^verbatim>\<open>ValueError\<close>, the empty path and a path the operating system refuses raise
  \<^verbatim>\<open>OSError\<close> (\<^verbatim>\<open>FileNotFoundError\<close>, \<^verbatim>\<open>PermissionError\<close> and the like); in both cases
  no file is touched. Otherwise the file is there and empty.
\<close>

definition can_open :: "'s world \<Rightarrow> string \<Rightarrow> bool" where
  "can_open w filename \<longleftrightarrow> CHR 0x00 \<notin> set filename \<and> filename \<noteq> [] \<and> writable w filename"

definition open_w :: "string \<Rightarrow> 's world \<Rightarrow> error + 's world" where
  "open_w filename w =
     (if can_open w filename then Inr (w\<lparr>files := (files w)(filename \<mapsto> [])\<rparr>)
      else if CHR 0x00 \<in> set filename then Inl ValueError
      else Inl OSError)"

section \<open>utils/data\_utils.py\<close>

text \<open>\<^verbatim>\<open>site_name in seen_values\<close>; hashing an unhashable name raises.\<close>

definition is_duplicate :: "pyval \<Rightarrow> pykey set \<Rightarrow> error + bool" where
  "is_duplicate site_name seen_values =
     (case hash_key site_name of
        None \<Rightarrow> Inl TypeError
      | Some k \<Rightarrow> Inr (k \<in> seen_values))"

definition is_complete_site :: "pydict \<Rightarrow> string list \<Rightarrow> bool" where
  "is_complete_site site required_keys =
     list_all (\<lambda>key. map_of site key \<noteq> None) required_keys"

text \<open>
  \<^verbatim>\<open>DictWriter._dict_to_list\<close> with the default \<^verbatim>\<open>extrasaction='raise'\<close>: a key
  outside the field names raises \<^verbatim>\<open>ValueError\<close>; otherwise one cell per field name.
\<close>

definition row_cells :: "string list \<Rightarrow> pydict \<Rightarrow> csv_row" where
  "row_cells fieldnames rowdict =
     map (\<lambda>key. case map_of rowdict key of None \<Rightarrow> PStr [] | Some v \<Rightarrow> v) fieldnames"

definition keys_conform :: "string list \<Rightarrow> pydict \<Rightarrow> bool" where
  "keys_conform fieldnames rowdict = list_all (\<lambda>k. k \<in> set fieldnames) (dict_keys rowdict)"

definition dict_to_list :: "string list \<Rightarrow> pydict \<Rightarrow> error + csv_row" where
  "dict_to_list fieldnames rowdict =
     (if keys_conform fieldnames rowdict
      then Inr (row_cells fieldnames rowdict)
      else Inl ValueError)"

text \<open>
  The line of a row is encoded when it is written: a cell the codec refuses raises
  \<^verbatim>\<open>UnicodeEncodeError\<close> and nothing of the row reaches the file.
\<close>

definition row_encodable :: "csv_row \<Rightarrow> bool" where
  "row_encodable row = list_all cell_encodable row"

text \<open>
  \<^verbatim>\<open>writer.writerows\<close>: the rows are converted and written one by one, so a record
  that raises leaves the rows before it in the file.
\<close>

fun writerows :: "string list \<Rightarrow> pydict list \<Rightarrow> csv_row list \<Rightarrow> error option \<times> csv_row list" where
  "writerows fieldnames [] content = (None, content)"
| "writerows fieldnames (r # rs) content =
     (case dict_to_list fieldnames r of
        Inl e \<Rightarrow> (Some e, content)
      | Inr row \<Rightarrow>
          if row_encodable row then writerows fieldnames rs (content @ [row])
          else (Some UnicodeEncodeError, content))"

text \<open>
  The \<^verbatim>\<open>with\<close> block closes the file on every way out, so what was written before an
  exception stays in the file. The header holds the field names, which are ASCII.
\<close>

definition save_keys_to_csv ::
  "pydict list \<Rightarrow> string \<Rightarrow> 's world \<Rightarrow> (error + unit) \<times> 's world" where
  "save_keys_to_csv valid_infos filename w =
     (if valid_infos = [] then (Inr (), print_line NoDataToSave w)
      else
        let fieldnames = Site_model_fields in
        (case open_w filename w of
           Inl e \<Rightarrow> (Inl e, w)
         | Inr opened \<Rightarrow>
             (let header = [map PStr fieldnames] in
              (case writerows fieldnames valid_infos header of
                 (Some e, content) \<Rightarrow>
                   (Inl e, opened\<lparr>files := (files opened)(filename \<mapsto> content)\<rparr>)
               | (None, content) \<Rightarrow>
                   (Inr (), print_line (SavedSites (length valid_infos) filename)
                              (opened\<lparr>files := (files opened)(filename \<mapsto> content)\<rparr>))))))"

section \<open>utils/scraper\_utils.py\<close>

definition check_no_results ::
  "'s crawler \<Rightarrow> string \<Rightarrow> string \<Rightarrow> 's world \<Rightarrow> (error + bool) \<times> 's world" where
  "check_no_results crawler url session_id w =
     (let (result, w1) =
            arun crawler
              \<lparr>req_url = url, req_cache_mode = BYPASS, req_session_id = session_id,
               req_extraction_strategy = None, req_css_selector = None\<rparr> w
      in if success result then
           (case cleaned_html result of
              None \<Rightarrow> (Inl TypeError, w1)
            | Some html \<Rightarrow>
                if sublist ''No Results Found'' html then (Inr True, w1)
                else (Inr False, print_line (NoResultsCheckError (error_message result)) w1))
         else (Inr False, w1))"

text \<open>
  The body of the loop over the extracted data. The state is the local list
  \<^verbatim>\<open>complete_info\<close>, the set \<^verbatim>\<open>seen_names\<close> (the caller's object, changed in place) and
  the world; \<open>Some e\<close> is an exception leaving the loop.
\<close>

type_synonym 's loop_state = "pydict list \<times> pykey set \<times> 's world"

text \<open>
  \<^verbatim>\<open>if info.get("error") is False: info.pop("error", None)\<close>. Only the object
  \<^verbatim>\<open>False\<close> passes the identity test: \<^verbatim>\<open>0\<close>, \<^verbatim>\<open>None\<close> or \<^verbatim>\<open>True\<close> stay, and so
  does a missing key.
\<close>

definition strip_error :: "pydict \<Rightarrow> pydict" where
  "strip_error info =
     (if map_of info ''error'' = Some (PBool False) then dict_pop ''error'' info else info)"

fun process_info ::
  "string list \<Rightarrow> pyval \<Rightarrow> 's loop_state \<Rightarrow> error option \<times> 's loop_state" where
  "process_info required_keys info (complete_info, seen_names, w) =
     (let w1 = print_line (ProcessingData info) w in
      (case info of
         PDict d \<Rightarrow>
           (let info' = strip_error d
            in if \<not> is_complete_site info' required_keys then (None, complete_info, seen_names, w1)
               else (case map_of info' ''name'' of
                       None \<Rightarrow> (Some KeyError, complete_info, seen_names, w1)
                     | Some name \<Rightarrow>
                         (case is_duplicate name seen_names of
                            Inl e \<Rightarrow> (Some e, complete_info, seen_names, w1)
                          | Inr True \<Rightarrow>
                              (None, complete_info, seen_names, print_line (DuplicateVenue name) w1)
                          | Inr False \<Rightarrow>
                              (case hash_key name of
                                 None \<Rightarrow> (Some TypeError, complete_info, seen_names, w1)
                               | Some k \<Rightarrow>
                                   (None, complete_info @ [info'], insert k seen_names, w1)))))
       | _ \<Rightarrow> (Some AttributeError, complete_info, seen_names, w1)))"

declare process_info.simps [simp del]

fun process_data ::
  "string list \<Rightarrow> pyval list \<Rightarrow> 's loop_state \<Rightarrow> error option \<times> 's loop_state" where
  "process_data required_keys [] st = (None, st)"
| "process_data required_keys (info # rest) st =
     (case process_info required_keys info st of
        (Some e, st') \<Rightarrow> (Some e, st')
      | (None, st') \<Rightarrow> process_data required_keys rest st')"

text \<open>
  \<^verbatim>\<open>json.loads\<close> is a parameter: \<open>None\<close> is a payload it rejects. The second half
  of \<^verbatim>\<open>fetch_and_process_page\<close>, from \<^verbatim>\<open>json.loads\<close> to the last \<^verbatim>\<open>return\<close>: the
  outcome, the set \<^verbatim>\<open>seen_names\<close> as the call leaves it, and the world.
\<close>

definition process_extracted ::
  "(string \<Rightarrow> pyval option) \<Rightarrow> int \<Rightarrow> string list \<Rightarrow> string \<Rightarrow> pykey set \<Rightarrow> 's world \<Rightarrow>
   (error + pydict list \<times> bool) \<times> pykey set \<times> 's world" where
  "process_extracted json_loads page_number required_keys payload seen_names w =
     (case json_loads payload of
        None \<Rightarrow> (Inl JSONDecodeError, seen_names, w)
      | Some extracted_data \<Rightarrow>
          if \<not> truthy extracted_data then
            (Inr ([], False), seen_names, print_line (NoVenuesFound page_number) w)
          else
            (let w1 = print_line (ExtractedData extracted_data) w in
             (case py_iter extracted_data of
                Inl e \<Rightarrow> (Inl e, seen_names, w1)
              | Inr infos \<Rightarrow>
                  (case process_data required_keys infos ([], seen_names, w1) of
                     (Some e, complete_info, seen_names', w2) \<Rightarrow> (Inl e, seen_names', w2)
                   | (None, complete_info, seen_names', w2) \<Rightarrow>
                       if complete_info = [] then
                         (Inr ([], False), seen_names',
                          print_line (NoCompleteVenues page_number) w2)
                       else
                         (Inr (complete_info, False), seen_names',
                          print_line (ExtractedVenues (length complete_info) page_number) w2)))))"

definition fetch_and_process_page ::
  "(string \<Rightarrow> pyval option) \<Rightarrow> 's crawler \<Rightarrow> int \<Rightarrow> string \<Rightarrow> string \<Rightarrow> 's \<Rightarrow> string \<Rightarrow>
   string list \<Rightarrow> pykey set \<Rightarrow> 's world \<Rightarrow>
   (error + pydict list \<times> bool) \<times> pykey set \<times> 's world" where
  "fetch_and_process_page json_loads crawler page_number base_url css_selector llm_strategy
     session_id required_keys seen_names w =
     (let url = base_url @ ''?page='' @ str_int page_number;
          w1 = print_line (LoadingPage page_number) w
      in (case check_no_results crawler url session_id w1 of
            (Inl e, w2) \<Rightarrow> (Inl e, seen_names, w2)
          | (Inr True, w2) \<Rightarrow> (Inr ([], True), seen_names, w2)
          | (Inr False, w2) \<Rightarrow>
              (let (result, w3) =
                     arun crawler
                       \<lparr>req_url = url, req_cache_mode = BYPASS, req_session_id = session_id,
                        req_extraction_strategy = Some llm_strategy,
                        req_css_selector = Some css_selector\<rparr> w2;
                   failed = (Inr ([], False), seen_names,
                             print_line (ErrorFetchingPage page_number (error_message result)) w3)
               in (case extracted_content result of
                     None \<Rightarrow> failed
                   | Some payload \<Rightarrow>
                       if success result \<and> payload \<noteq> []
                       then process_extracted json_loads page_number required_keys payload
                              seen_names w3
                       else failed))))"

section \<open>Runs and accepted names\<close>

text \<open>
  The key under which the name of a record sits in \<^verbatim>\<open>seen_names\<close>: \<open>None\<close> when the
  record has no name or an unhashable one.
\<close>

definition name_key :: "pydict \<Rightarrow> pykey option" where
  "name_key d = (case map_of d ''name'' of None \<Rightarrow> None | Some n \<Rightarrow> hash_key n)"

definition record_names :: "pydict list \<Rightarrow> pykey set" where
  "record_names recs = set (List.map_filter name_key recs)"

text \<open>
  Modelled from the spec: the pagination driver that calls \<^verbatim>\<open>fetch_and_process_page\<close>
  is not among the sources. A run is any finite sequence of calls, each with its own
  arguments (page number, base url, selector, strategy, session id, required keys),
  threading one \<^verbatim>\<open>seen_names\<close> set and one world; the records of the calls that return
  are accumulated in order, and a call that raises contributes none.
\<close>

type_synonym 's call = "int \<times> string \<times> string \<times> 's \<times> string \<times> string list"

fun run_calls ::
  "(string \<Rightarrow> pyval option) \<Rightarrow> 's crawler \<Rightarrow> 's call list \<Rightarrow> pydict list \<Rightarrow> pykey set \<Rightarrow>
   's world \<Rightarrow> pydict list \<times> pykey set \<times> 's world" where
  "run_calls json_loads crawler [] all_venues seen_names w = (all_venues, seen_names, w)"
| "run_calls json_loads crawler ((page_number, base_url, css_selector, llm_strategy,
      session_id, required_keys) # rest) all_venues seen_names w =
     (case fetch_and_process_page json_loads crawler page_number base_url css_selector
             llm_strategy session_id required_keys seen_names w of
        (Inr (venues, no_results), seen_names', w') \<Rightarrow>
          run_calls json_loads crawler rest (all_venues @ venues) seen_names' w'
      | (Inl e, seen_names', w') \<Rightarrow>
          run_calls json_loads crawler rest all_venues seen_names' w')"

text \<open>
  What one call may add to a run: records that are complete, carry no benign error flag,
  and have hashable names that are pairwise different and not in \<^verbatim>\<open>seen_names\<close> yet.
\<close>

definition fresh_records :: "string list \<Rightarrow> pykey set \<Rightarrow> pydict list \<Rightarrow> bool" where
  "fresh_records required_keys seen_names new \<longleftrightarrow>
     distinct (map name_key new) \<and>
     (\<forall>d \<in> set new. name_key d \<noteq> None \<and> name_key d \<notin> Some ` seen_names
        \<and> is_complete_site d required_keys \<and> map_of d ''error'' \<noteq> Some (PBool False))"

text \<open>
  The contract of one call on \<^verbatim>\<open>seen_names\<close>: the set only grows, and when the call
  returns it has grown by exactly the names of the returned records.
\<close>

definition call_ok ::
  "string list \<Rightarrow> pykey set \<Rightarrow> (error + pydict list \<times> bool) \<Rightarrow> pykey set \<Rightarrow> bool" where
  "call_ok required_keys seen_names out seen_names' \<longleftrightarrow>
     seen_names \<subseteq> seen_names' \<and>
     (\<forall>recs flag. out = Inr (recs, flag) \<longrightarrow>
        seen_names' = seen_names \<union> record_names recs
        \<and> fresh_records required_keys seen_names recs)"

section \<open>Example inputs\<close>

text \<open>
  A listing site for the examples: a url in the table is a page whose extraction yields
  the payload beside it; any other url is the page after the last one, which shows the
  marker phrase.
\<close>

definition listing_crawler :: "(string \<times> string) list \<Rightarrow> string crawler" where
  "listing_crawler pages history req =
     (case map_of pages (req_url req) of
        None \<Rightarrow>
          \<lparr>success = True, cleaned_html = Some ''<p>No Results Found</p>'',
           extracted_content = None, error_message = None\<rparr>
      | Some payload \<Rightarrow>
          \<lparr>success = True, cleaned_html = Some ''<ul><li>venue</li></ul>'',
           extracted_content =
             (if req_extraction_strategy req = None then None else Some payload),
           error_message = None\<rparr>)"

text \<open>The same site when every probe (a request without extraction strategy) fails.\<close>

definition failing_probe_crawler :: "(string \<times> string) list \<Rightarrow> string crawler" where
  "failing_probe_crawler pages history req =
     (if req_extraction_strategy req = None
      then \<lparr>success = False, cleaned_html = None, extracted_content = None,
            error_message = Some ''net::ERR_TIMED_OUT''\<rparr>
      else listing_crawler pages history req)"

text \<open>A world with no request made, nothing printed, no file, and every path writable.\<close>

definition any_path :: "string \<Rightarrow> bool" where
  "any_path filename = True"

definition empty_world :: "string world" where
  "empty_world = \<lparr>requests = [], stdout = [], files = Map.empty, writable = any_path\<rparr>"

text \<open>A complete venue whose falsy values are a rating of 0.0 and 0 reviews.\<close>

definition hall :: pydict where
  "hall = [(''name'', PStr ''Hall''), (''location'', PStr ''Leeds''), (''price'', PStr ''100''),
           (''capacity'', PStr ''50''), (''rating'', PFloat 0), (''reviews'', PInt 0),
           (''description'', PStr ''A hall.'')]"

text \<open>The same venue without its description, and with an empty name.\<close>

definition hall_no_description :: pydict where
  "hall_no_description =
     [(''name'', PStr ''Hall''), (''location'', PStr ''Leeds''), (''price'', PStr ''100''),
      (''capacity'', PStr ''50''), (''rating'', PFloat 0), (''reviews'', PInt 0)]"

definition nameless_hall :: pydict where
  "nameless_hall =
     [(''name'', PStr []), (''location'', PStr ''Leeds''), (''price'', PStr ''100''),
      (''capacity'', PStr ''50''), (''rating'', PFloat 0), (''reviews'', PInt 0),
      (''description'', PStr ''A hall.'')]"

text \<open>The venue with an error flag that is true, and with the benign flag \<^verbatim>\<open>false\<close>.\<close>

definition flagged_hall :: pydict where
  "flagged_hall = hall @ [(''error'', PBool True)]"

definition benign_hall :: pydict where
  "benign_hall = hall @ [(''error'', PBool False)]"

text \<open>The venue whose location is the lone surrogate \<^verbatim>\<open>\ud800\<close>.\<close>

definition surrogate_hall :: pydict where
  "surrogate_hall =
     [(''name'', PStr ''Hall''), (''location'', PStr [CHR 0xED, CHR 0xA0, CHR 0x80]),
      (''price'', PStr ''100''), (''capacity'', PStr ''50''), (''rating'', PFloat 0),
      (''reviews'', PInt 0), (''description'', PStr ''A hall.'')]"

text \<open>
  The parser of the examples: each payload text stands for the JSON text of the value
  beside it, and every other text is rejected.
\<close>

definition example_loads :: "string \<Rightarrow> pyval option" where
  "example_loads =
     map_of
       [(''[hall]'', PList [PDict hall]),
        (''[hall_no_description]'', PList [PDict hall_no_description]),
        (''[nameless_hall]'', PList [PDict nameless_hall]),
        (''[benign_hall]'', PList [PDict benign_hall]),
        (''[hall, hall, hall_no_description, nameless_hall]'',
         PList [PDict hall, PDict hall, PDict hall_no_description, PDict nameless_hall]),
        (''[leeds]'', PList [PDict [(''location'', PStr ''Leeds'')]])]"

section \<open>Dictionaries, names and the loop\<close>

lemma map_of_dict_pop: "map_of (dict_pop k d) k' = (if k' = k then None else map_of d k')"
  by (induction d) (auto simp: dict_pop_def)

lemma strip_error_no_false: "map_of (strip_error d) ''error'' \<noteq> Some (PBool False)"
  by (simp add: strip_error_def map_of_dict_pop)

lemma map_of_strip_error: "k \<noteq> ''error'' \<Longrightarrow> map_of (strip_error d) k = map_of d k"
  by (simp add: strip_error_def map_of_dict_pop)

lemma record_names_Nil: "record_names [] = {}"
  by (simp add: record_names_def map_filter_simps)

lemma record_names_Cons:
  "record_names (d # ds) =
     (case name_key d of None \<Rightarrow> record_names ds | Some k \<Rightarrow> insert k (record_names ds))"
  by (simp add: record_names_def map_filter_simps split: option.splits)

lemma record_names_append: "record_names (xs @ ys) = record_names xs \<union> record_names ys"
  by (induction xs) (auto simp: record_names_Nil record_names_Cons split: option.splits)

lemma record_names_iff: "k \<in> record_names ds \<longleftrightarrow> (\<exists>d \<in> set ds. name_key d = Some k)"
  by (induction ds) (auto simp: record_names_Nil record_names_Cons split: option.splits)

lemma fresh_records_Nil: "fresh_records R sn []"
  by (simp add: fresh_records_def)

lemma fresh_records_Cons:
  assumes "name_key d = Some k" "k \<notin> sn" "is_complete_site d R"
    "map_of d ''error'' \<noteq> Some (PBool False)" "fresh_records R (insert k sn) new"
  shows "fresh_records R sn (d # new)"
  using assms by (auto simp: fresh_records_def)

text \<open>
  One pass of the loop body either leaves \<^verbatim>\<open>complete_info\<close> and \<^verbatim>\<open>seen_names\<close> as they
  were, or appends the stripped candidate and inserts the key of its name, which was not
  in the set.
\<close>

lemma process_info_cases:
  assumes "process_info R info (ci, sn, w) = (e, ci', sn', w')"
  shows "(ci' = ci \<and> sn' = sn) \<or>
     (e = None \<and> (\<exists>d k. info = PDict d \<and> ci' = ci @ [strip_error d] \<and> sn' = insert k sn
          \<and> name_key (strip_error d) = Some k \<and> k \<notin> sn
          \<and> is_complete_site (strip_error d) R))"
proof (cases info)
  case (PDict d)
  show ?thesis
    using assms unfolding PDict
    by (auto simp: process_info.simps Let_def is_duplicate_def name_key_def
      split: option.splits if_splits bool.splits)
qed (use assms in \<open>auto simp: process_info.simps Let_def\<close>)

lemma process_data_acc:
  "process_data R infos (ci, sn, w) = (e, ci', sn', w') \<Longrightarrow>
   \<exists>new. ci' = ci @ new \<and> sn' = sn \<union> record_names new \<and> fresh_records R sn new"
proof (induction infos arbitrary: ci sn w)
  case Nil
  then show ?case by (auto simp: record_names_Nil fresh_records_Nil)
next
  case (Cons info rest)
  obtain e1 ci1 sn1 w1 where step: "process_info R info (ci, sn, w) = (e1, ci1, sn1, w1)"
    by (metis prod_cases4)
  from process_info_cases [OF step] consider
      (same) "ci1 = ci" "sn1 = sn"
    | (accepted) d k where "e1 = None" "ci1 = ci @ [strip_error d]" "sn1 = insert k sn"
        "name_key (strip_error d) = Some k" "k \<notin> sn" "is_complete_site (strip_error d) R"
    by blast
  then show ?case
  proof cases
    case same
    show ?thesis
    proof (cases e1)
      case None
      with Cons.prems step have "process_data R rest (ci1, sn1, w1) = (e, ci', sn', w')"
        by simp
      from Cons.IH [OF this] same show ?thesis by simp
    next
      case (Some err)
      with Cons.prems step same have "ci' = ci" "sn' = sn" by auto
      then show ?thesis by (auto simp: record_names_Nil fresh_records_Nil)
    qed
  next
    case accepted
    with Cons.prems step have "process_data R rest (ci1, sn1, w1) = (e, ci', sn', w')"
      by simp
    from Cons.IH [OF this] obtain new where
      new: "ci' = ci1 @ new" "sn' = sn1 \<union> record_names new" "fresh_records R sn1 new"
      by blast
    have "fresh_records R sn (strip_error d # new)"
      using accepted new(3) strip_error_no_false by (intro fresh_records_Cons [where k = k]) auto
    moreover have "ci' = ci @ (strip_error d # new)"
      using new(1) accepted by simp
    moreover have "sn' = sn \<union> record_names (strip_error d # new)"
      using new(2) accepted by (simp add: record_names_Cons)
    ultimately show ?thesis by blast
  qed
qed

lemma process_extracted_ok:
  assumes "process_extracted jl pn R payload sn w = (out, sn', w')"
  shows "call_ok R sn out sn'"
proof (cases "jl payload")
  case None
  with assms show ?thesis
    by (auto simp: process_extracted_def call_ok_def)
next
  case (Some data)
  show ?thesis
  proof (cases "truthy data")
    case False
    with Some assms show ?thesis
      by (auto simp: process_extracted_def call_ok_def record_names_Nil fresh_records_Nil)
  next
    case True
    show ?thesis
    proof (cases "py_iter data")
      case (Inl e)
      with Some True assms show ?thesis
        by (auto simp: process_extracted_def call_ok_def Let_def)
    next
      case (Inr infos)
      obtain e ci sn1 w1 where
        loop: "process_data R infos ([], sn, print_line (ExtractedData data) w) = (e, ci, sn1, w1)"
        by (metis prod_cases4)
      from process_data_acc [OF loop] have
        acc: "sn1 = sn \<union> record_names ci" "fresh_records R sn ci" by auto
      from assms Some True Inr loop acc show ?thesis
        by (auto simp: process_extracted_def call_ok_def Let_def record_names_Nil fresh_records_Nil
            split: option.splits if_splits)
    qed
  qed
qed

lemma fetch_and_process_page_ok:
  assumes "fetch_and_process_page jl cr pn bu cs ls sid R sn w = (out, sn', w')"
  shows "call_ok R sn out sn'"
proof -
  have trivial: "call_ok R sn (Inl e) sn" "call_ok R sn (Inr ([], b)) sn" for e b
    by (auto simp: call_ok_def record_names_Nil fresh_records_Nil)
  show ?thesis
    using assms trivial
    by (auto simp: fetch_and_process_page_def Let_def
        split: prod.splits sum.splits bool.splits option.splits if_splits
        dest: process_extracted_ok)
qed

lemma run_calls_inv:
  "run_calls jl cr calls acc sn w = (acc', sn', w') \<Longrightarrow>
   distinct (map name_key acc) \<Longrightarrow> \<forall>d \<in> set acc. name_key d \<noteq> None \<Longrightarrow>
   record_names acc \<subseteq> sn \<Longrightarrow>
   distinct (map name_key acc') \<and> (\<forall>d \<in> set acc'. name_key d \<noteq> None) \<and> record_names acc' \<subseteq> sn'"
proof (induction calls arbitrary: acc sn w)
  case Nil
  then show ?case by simp
next
  case (Cons c rest)
  obtain pn bu cs ls sid R where c: "c = (pn, bu, cs, ls, sid, R)"
    by (metis prod_cases6)
  obtain out sn1 w1 where
    call: "fetch_and_process_page jl cr pn bu cs ls sid R sn w = (out, sn1, w1)"
    by (metis prod_cases3)
  have ok: "call_ok R sn out sn1"
    using call by (rule fetch_and_process_page_ok)
  show ?case
  proof (cases out)
    case (Inl e)
    have sub: "record_names acc \<subseteq> sn1"
      using ok Cons.prems(4) by (auto simp: call_ok_def)
    from Cons.prems(1) call Inl have "run_calls jl cr rest acc sn1 w1 = (acc', sn', w')"
      by (simp add: c)
    from Cons.IH [OF this Cons.prems(2,3) sub] show ?thesis .
  next
    case (Inr res)
    obtain recs flag where res: "res = (recs, flag)" by (cases res)
    from ok Inr res have grow: "sn1 = sn \<union> record_names recs" and fresh: "fresh_records R sn recs"
      by (auto simp: call_ok_def)
    have disj: "set (map name_key acc) \<inter> set (map name_key recs) = {}"
    proof (rule ccontr)
      assume "\<not> ?thesis"
      then obtain d d' where d: "d \<in> set acc" "d' \<in> set recs" "name_key d = name_key d'"
        by auto
      from d(1) Cons.prems(3) obtain k where k: "name_key d = Some k" by auto
      with d(1) have "k \<in> record_names acc" by (auto simp: record_names_iff)
      with Cons.prems(4) have "k \<in> sn" by blast
      moreover from fresh d(2) have "name_key d' \<notin> Some ` sn" by (auto simp: fresh_records_def)
      ultimately show False using d(3) k by (metis imageI)
    qed
    have a: "distinct (map name_key (acc @ recs))"
      using Cons.prems(2) fresh disj by (simp add: fresh_records_def)
    have b: "\<forall>d \<in> set (acc @ recs). name_key d \<noteq> None"
      using Cons.prems(3) fresh by (auto simp: fresh_records_def)
    have sub: "record_names (acc @ recs) \<subseteq> sn1"
      using Cons.prems(4) grow by (auto simp: record_names_append)
    from Cons.prems(1) call Inr res
    have "run_calls jl cr rest (acc @ recs) sn1 w1 = (acc', sn', w')" by (simp add: c)
    from Cons.IH [OF this a b sub] show ?thesis .
  qed
qed

text \<open>The only \<^verbatim>\<open>KeyError\<close> is the lookup of the name.\<close>

lemma process_info_no_KeyError:
  "''name'' \<in> set R \<Longrightarrow> fst (process_info R info (ci, sn, w)) \<noteq> Some KeyError"
  by (cases info)
     (auto simp: process_info.simps Let_def is_duplicate_def is_complete_site_def list_all_iff
       split: option.splits bool.splits)

lemma process_data_no_KeyError:
  "process_data R infos st = (Some e, st') \<Longrightarrow> ''name'' \<in> set R \<Longrightarrow> e \<noteq> KeyError"
proof (induction infos arbitrary: st)
  case Nil
  then show ?case by simp
next
  case (Cons info rest)
  obtain ci sn w where st: "st = (ci, sn, w)" by (cases st)
  from process_info_no_KeyError [OF Cons.prems(2), of info ci sn w] Cons.IH Cons.prems
  show ?case
    by (auto simp: st split: prod.splits option.splits)
qed

lemma py_iter_error: "py_iter v = Inl e \<Longrightarrow> e = TypeError"
  by (cases v) auto

lemma check_no_results_error: "check_no_results cr url sid w = (Inl e, w') \<Longrightarrow> e = TypeError"
  by (auto simp: check_no_results_def arun_def Let_def split: option.splits if_splits)

lemma process_extracted_no_KeyError:
  "process_extracted jl pn R payload sn w = (Inl e, sn', w') \<Longrightarrow> ''name'' \<in> set R \<Longrightarrow>
   e \<noteq> KeyError"
  by (auto simp: process_extracted_def Let_def
      split: option.splits sum.splits prod.splits if_splits
      dest: process_data_no_KeyError py_iter_error)

lemma fetch_and_process_page_no_KeyError:
  "fetch_and_process_page jl cr pn bu cs ls sid R sn w = (Inl e, sn', w') \<Longrightarrow>
   ''name'' \<in> set R \<Longrightarrow> e \<noteq> KeyError"
  by (auto simp: fetch_and_process_page_def Let_def
      split: prod.splits sum.splits bool.splits option.splits if_splits
      dest: process_extracted_no_KeyError check_no_results_error)

section \<open>Writing rows\<close>

lemma keys_conform_iff: "keys_conform fieldnames r \<longleftrightarrow> set (dict_keys r) \<subseteq> set fieldnames"
  by (auto simp: keys_conform_def list_all_iff)

text \<open>
  What \<^verbatim>\<open>writerows\<close> leaves behind: the rows of the records before the first one that
  has a foreign key or a cell the codec refuses, and the exception of that record.
\<close>

lemma writerows_result:
  "writerows fieldnames recs content =
     (if list_all (\<lambda>r. keys_conform fieldnames r \<and> row_encodable (row_cells fieldnames r)) recs
      then None
      else Some (if list_all (\<lambda>r. row_encodable (row_cells fieldnames r))
                      (takeWhile (keys_conform fieldnames) recs)
                 then ValueError else UnicodeEncodeError),
      content @ map (row_cells fieldnames)
        (takeWhile (\<lambda>r. keys_conform fieldnames r \<and> row_encodable (row_cells fieldnames r))
           recs))"
  by (induction recs arbitrary: content) (simp_all add: dict_to_list_def)

lemma open_w_ok:
  "can_open w filename \<Longrightarrow> open_w filename w = Inr (w\<lparr>files := (files w)(filename \<mapsto> [])\<rparr>)"
  by (simp add: open_w_def)

lemma takeWhile_short:
  "\<not> list_all P xs \<Longrightarrow> length (takeWhile P xs) < length xs"
  by (induction xs) auto

lemma takeWhile_conform:
  "takeWhile (keys_conform F) xs = takeWhile (\<lambda>r. set (dict_keys r) \<subseteq> set F) xs"
  by (induction xs) (auto simp: keys_conform_iff)

lemma takeWhile_conform_enc:
  "takeWhile (\<lambda>r. keys_conform F r \<and> Q r) xs =
   takeWhile (\<lambda>r. set (dict_keys r) \<subseteq> set F \<and> Q r) xs"
  by (induction xs) (auto simp: keys_conform_iff)

section \<open>Evaluating the examples\<close>

text \<open>The equations that unfold the model, and those of the example inputs.\<close>

lemmas model_defs =
  fetch_and_process_page_def check_no_results_def arun_def print_line_def process_extracted_def
  process_info.simps strip_error_def dict_pop_def is_complete_site_def is_duplicate_def
  str_int_def str_nat.simps sublist_Cons_right Let_def save_keys_to_csv_def dict_to_list_def
  row_cells_def dict_keys_def Site_model_fields_def name_key_def record_names_def
  map_filter_simps open_w_def can_open_def keys_conform_def row_encodable_def

lemmas example_defs =
  listing_crawler_def failing_probe_crawler_def empty_world_def hall_def
  hall_no_description_def nameless_hall_def flagged_hall_def benign_hall_def example_loads_def
  surrogate_hall_def any_path_def

section \<open>The terminal page\<close>

text \<open>
  Claim C1. When the probe fetch succeeds and the cleaned html of the page contains the
  phrase \<^verbatim>\<open>No Results Found\<close>, \<^verbatim>\<open>fetch_and_process_page\<close> returns the empty list with the
  terminal flag true, the set \<^verbatim>\<open>seen_names\<close> is the one passed in, and the only request
  made is the probe (the one without extraction strategy): the extraction fetch does not
  happen.
\<close>

theorem no_results_is_terminal:
  assumes "crawler (requests w)
             \<lparr>req_url = base_url @ ''?page='' @ str_int page_number, req_cache_mode = BYPASS,
              req_session_id = session_id, req_extraction_strategy = None,
              req_css_selector = None\<rparr> = probe"
    and "success probe"
    and "cleaned_html probe = Some html"
    and "sublist ''No Results Found'' html"
  shows "fetch_and_process_page json_loads crawler page_number base_url css_selector llm_strategy
           session_id required_keys seen_names w =
         (Inr ([], True), seen_names,
          w\<lparr>requests := requests w @
                [\<lparr>req_url = base_url @ ''?page='' @ str_int page_number, req_cache_mode = BYPASS,
                  req_session_id = session_id, req_extraction_strategy = None,
                  req_css_selector = None\<rparr>],
             stdout := stdout w @ [LoadingPage page_number]\<rparr>)"
  using assms
  by (simp add: fetch_and_process_page_def check_no_results_def arun_def print_line_def Let_def)

text \<open>Page 4 of a listing with no pages, with \<^verbatim>\<open>Hall\<close> already seen.\<close>

theorem no_results_is_terminal_witness:
  "success (listing_crawler [] (requests empty_world)
      \<lparr>req_url = ''http://v.test?page=4'', req_cache_mode = BYPASS, req_session_id = ''s1'',
       req_extraction_strategy = None, req_css_selector = None\<rparr>) \<and>
   sublist ''No Results Found'' ''<p>No Results Found</p>'' \<and>
   fetch_and_process_page (map_of []) (listing_crawler []) 4 ''http://v.test'' ''.venue'' ''llm''
     ''s1'' Site_model_fields {KStr ''Hall''} empty_world =
   (Inr ([], True), {KStr ''Hall''},
    \<lparr>requests = [\<lparr>req_url = ''http://v.test?page=4'', req_cache_mode = BYPASS,
                   req_session_id = ''s1'', req_extraction_strategy = None,
                   req_css_selector = None\<rparr>],
     stdout = [LoadingPage 4], files = Map.empty, writable = any_path\<rparr>)"
  using no_results_is_terminal
    [where crawler = "listing_crawler []" and w = empty_world and base_url = "''http://v.test''"
       and page_number = 4 and session_id = "''s1''" and html = "''<p>No Results Found</p>''"
       and probe = "\<lparr>success = True, cleaned_html = Some ''<p>No Results Found</p>'',
                     extracted_content = None, error_message = None\<rparr>"
       and json_loads = "map_of []" and css_selector = "''.venue''" and llm_strategy = "''llm''"
       and required_keys = Site_model_fields and seen_names = "{KStr ''Hall''}"]
  by (simp add: listing_crawler_def empty_world_def str_int_def str_nat.simps sublist_Cons_right)

section \<open>Saving\<close>

text \<open>
  Claim C2, as the code has it. An empty list prints \<^verbatim>\<open>No data to save\<close> and leaves every
  file as it was. A non-empty list, when the path can be opened for writing, no record has
  a key outside the seven fields of \<^verbatim>\<open>Site\<close> and every row can be encoded, puts into
  the file the header row, the seven field names in declaration order, then one row of
  seven cells per record in the order of the list, and prints the number of records.
\<close>

theorem save_keys_to_csv_conforming:
  "save_keys_to_csv [] filename w = (Inr (), w\<lparr>stdout := stdout w @ [NoDataToSave]\<rparr>) \<and>
   (valid_infos \<noteq> [] \<and> can_open w filename \<and>
    (\<forall>r \<in> set valid_infos. set (dict_keys r) \<subseteq> set Site_model_fields
       \<and> row_encodable (row_cells Site_model_fields r)) \<longrightarrow>
    save_keys_to_csv valid_infos filename w =
      (Inr (),
       w\<lparr>files := (files w)(filename \<mapsto>
            [PStr ''name'', PStr ''location'', PStr ''price'', PStr ''capacity'', PStr ''rating'',
             PStr ''reviews'', PStr ''description'']
            # map (row_cells Site_model_fields) valid_infos),
          stdout := stdout w @ [SavedSites (length valid_infos) filename]\<rparr>) \<and>
    length (map (row_cells Site_model_fields) valid_infos) = length valid_infos \<and>
    list_all (\<lambda>row. length row = 7) (map (row_cells Site_model_fields) valid_infos))"
proof -
  have empty: "save_keys_to_csv [] filename w = (Inr (), w\<lparr>stdout := stdout w @ [NoDataToSave]\<rparr>)"
    by (simp add: save_keys_to_csv_def print_line_def)
  have header: "map PStr Site_model_fields =
      [PStr ''name'', PStr ''location'', PStr ''price'', PStr ''capacity'', PStr ''rating'',
       PStr ''reviews'', PStr ''description'']"
    by (simp add: Site_model_fields_def)
  have cells: "list_all (\<lambda>row. length row = 7) (map (row_cells Site_model_fields) valid_infos)"
    by (simp add: list_all_iff row_cells_def Site_model_fields_def)
  have full: "save_keys_to_csv valid_infos filename w =
      (Inr (),
       w\<lparr>files := (files w)(filename \<mapsto>
            map PStr Site_model_fields # map (row_cells Site_model_fields) valid_infos),
          stdout := stdout w @ [SavedSites (length valid_infos) filename]\<rparr>)"
    if ne: "valid_infos \<noteq> []" and op: "can_open w filename"
      and ok: "\<forall>r \<in> set valid_infos. set (dict_keys r) \<subseteq> set Site_model_fields
                 \<and> row_encodable (row_cells Site_model_fields r)"
  proof -
    have all: "list_all (\<lambda>r. keys_conform Site_model_fields r
                 \<and> row_encodable (row_cells Site_model_fields r)) valid_infos"
      using ok by (simp add: list_all_iff keys_conform_iff)
    then have tw: "takeWhile (\<lambda>r. keys_conform Site_model_fields r
                 \<and> row_encodable (row_cells Site_model_fields r)) valid_infos = valid_infos"
      by (simp add: list_all_iff takeWhile_eq_all_conv)
    show ?thesis
      using ne all
      by (simp add: save_keys_to_csv_def open_w_ok [OF op] writerows_result tw print_line_def)
  qed
  show ?thesis
    using empty full cells by (simp add: header)
qed

theorem save_keys_to_csv_conforming_witness:
  "[hall] \<noteq> [] \<and> can_open empty_world ''venues.csv'' \<and>
   set (dict_keys hall) \<subseteq> set Site_model_fields \<and>
   row_encodable (row_cells Site_model_fields hall) \<and>
   save_keys_to_csv [hall] ''venues.csv'' empty_world =
     (Inr (),
      \<lparr>requests = [], stdout = [SavedSites 1 ''venues.csv''],
       files = [''venues.csv'' \<mapsto>
         [[PStr ''name'', PStr ''location'', PStr ''price'', PStr ''capacity'', PStr ''rating'',
           PStr ''reviews'', PStr ''description''],
          [PStr ''Hall'', PStr ''Leeds'', PStr ''100'', PStr ''50'', PFloat 0, PInt 0,
           PStr ''A hall.'']]],
       writable = any_path\<rparr>) \<and>
   save_keys_to_csv [] ''venues.csv'' empty_world =
     (Inr (), \<lparr>requests = [], stdout = [NoDataToSave], files = Map.empty,
              writable = any_path\<rparr>)"
  using save_keys_to_csv_conforming [of "''venues.csv''" empty_world "[hall]"]
  by (simp add: hall_def empty_world_def dict_keys_def Site_model_fields_def row_cells_def
      can_open_def any_path_def row_encodable_def)

text \<open>
  The claim for every non-empty list and every path fails. A list holding one complete
  venue that kept an \<^verbatim>\<open>error\<close> flag (its value was \<^verbatim>\<open>true\<close>) raises \<^verbatim>\<open>ValueError\<close>
  after the header, writes no row for the record and prints no count. The empty path
  raises \<^verbatim>\<open>OSError\<close> with nothing written or printed. A venue whose location holds a
  lone surrogate raises \<^verbatim>\<open>UnicodeEncodeError\<close> after the header.
\<close>

theorem save_keys_to_csv_counterexample:
  "save_keys_to_csv [flagged_hall] ''venues.csv'' empty_world =
     (Inl ValueError,
      \<lparr>requests = [], stdout = [],
       files = [''venues.csv'' \<mapsto>
         [[PStr ''name'', PStr ''location'', PStr ''price'', PStr ''capacity'', PStr ''rating'',
           PStr ''reviews'', PStr ''description'']]],
       writable = any_path\<rparr>) \<and>
   save_keys_to_csv [hall] [] empty_world = (Inl OSError, empty_world) \<and>
   save_keys_to_csv [surrogate_hall] ''venues.csv'' empty_world =
     (Inl UnicodeEncodeError,
      \<lparr>requests = [], stdout = [],
       files = [''venues.csv'' \<mapsto>
         [[PStr ''name'', PStr ''location'', PStr ''price'', PStr ''capacity'', PStr ''rating'',
           PStr ''reviews'', PStr ''description'']]],
       writable = any_path\<rparr>)"
  by (simp add: model_defs example_defs)

text \<open>
  Claim C9. When the path can be opened for writing and some record of the list has a key
  outside the seven fields of \<^verbatim>\<open>Site\<close>, \<^verbatim>\<open>save_keys_to_csv\<close> raises instead of
  completing and prints nothing. By then the file has been opened for writing: what it
  held before is gone, and it holds the header and the rows of the records before the
  first one that could not be written, so a header-only or partial file stays behind.
  The exception is the \<^verbatim>\<open>ValueError\<close> of the offending record, and the rows are those of
  all the records before it, unless a record before it has a cell the codec refuses.
\<close>

theorem save_keys_to_csv_extra_key:
  assumes "can_open w filename"
    and "\<exists>r \<in> set valid_infos. \<not> set (dict_keys r) \<subseteq> set Site_model_fields"
  shows "save_keys_to_csv valid_infos filename w =
      (Inl (if list_all (\<lambda>r. row_encodable (row_cells Site_model_fields r))
                 (takeWhile (\<lambda>r. set (dict_keys r) \<subseteq> set Site_model_fields) valid_infos)
            then ValueError else UnicodeEncodeError),
       w\<lparr>files := (files w)(filename \<mapsto>
            map PStr Site_model_fields
            # map (row_cells Site_model_fields)
                (takeWhile (\<lambda>r. set (dict_keys r) \<subseteq> set Site_model_fields
                              \<and> row_encodable (row_cells Site_model_fields r))
                   valid_infos))\<rparr>) \<and>
    length (takeWhile (\<lambda>r. set (dict_keys r) \<subseteq> set Site_model_fields
                         \<and> row_encodable (row_cells Site_model_fields r)) valid_infos)
      < length valid_infos"
proof -
  let ?F = Site_model_fields
  let ?ok = "\<lambda>r. keys_conform ?F r \<and> row_encodable (row_cells ?F r)"
  have ne: "valid_infos \<noteq> []"
    using assms(2) by auto
  have notall: "\<not> list_all ?ok valid_infos"
    using assms(2) by (auto simp: list_all_iff keys_conform_iff)
  have short: "length (takeWhile ?ok valid_infos) < length valid_infos"
    using notall by (rule takeWhile_short)
  have rows: "writerows ?F valid_infos [map PStr ?F] =
      (Some (if list_all (\<lambda>r. row_encodable (row_cells ?F r))
                  (takeWhile (keys_conform ?F) valid_infos)
             then ValueError else UnicodeEncodeError),
       [map PStr ?F] @ map (row_cells ?F) (takeWhile ?ok valid_infos))"
    unfolding writerows_result using notall by simp
  have opened: "open_w filename w = Inr (w\<lparr>files := (files w)(filename \<mapsto> [])\<rparr>)"
    using assms(1) by (rule open_w_ok)
  have "save_keys_to_csv valid_infos filename w =
      (Inl (if list_all (\<lambda>r. row_encodable (row_cells ?F r))
                 (takeWhile (keys_conform ?F) valid_infos)
            then ValueError else UnicodeEncodeError),
       w\<lparr>files := (files w)(filename \<mapsto>
            map PStr ?F # map (row_cells ?F) (takeWhile ?ok valid_infos))\<rparr>)"
    unfolding save_keys_to_csv_def Let_def opened rows using ne by simp
  then show ?thesis
    using short unfolding takeWhile_conform takeWhile_conform_enc by simp
qed

text \<open>The second of three records is the offending one; the file held one old row.\<close>

theorem save_keys_to_csv_extra_key_witness:
  "can_open (empty_world\<lparr>files := [''venues.csv'' \<mapsto> [[PStr ''old'']]]\<rparr>) ''venues.csv'' \<and>
   (\<exists>r \<in> set [hall, flagged_hall, hall]. \<not> set (dict_keys r) \<subseteq> set Site_model_fields) \<and>
   save_keys_to_csv [hall, flagged_hall, hall] ''venues.csv''
     (empty_world\<lparr>files := [''venues.csv'' \<mapsto> [[PStr ''old'']]]\<rparr>) =
     (Inl ValueError,
      \<lparr>requests = [], stdout = [],
       files = [''venues.csv'' \<mapsto>
         [[PStr ''name'', PStr ''location'', PStr ''price'', PStr ''capacity'', PStr ''rating'',
           PStr ''reviews'', PStr ''description''],
          [PStr ''Hall'', PStr ''Leeds'', PStr ''100'', PStr ''50'', PFloat 0, PInt 0,
           PStr ''A hall.'']]],
       writable = any_path\<rparr>)"
  using save_keys_to_csv_extra_key [of
      "empty_world\<lparr>files := [''venues.csv'' \<mapsto> [[PStr ''old'']]]\<rparr>" "''venues.csv''"
      "[hall, flagged_hall, hall]"]
  by (simp add: hall_def flagged_hall_def empty_world_def dict_keys_def Site_model_fields_def
      row_cells_def can_open_def any_path_def row_encodable_def)

section \<open>Completeness\<close>

text \<open>
  Claim C3. \<^verbatim>\<open>is_complete_site\<close> is true exactly when every required key is a key of the
  candidate. The values play no part: two candidates with the same keys are complete
  together, and a candidate whose reviews are 0 and whose rating is 0.0 is complete.
\<close>

theorem is_complete_site_presence:
  "(is_complete_site C R \<longleftrightarrow> (\<forall>k \<in> set R. k \<in> set (dict_keys C))) \<and>
   (set (dict_keys C') = set (dict_keys C) \<longrightarrow> is_complete_site C' R = is_complete_site C R)"
  by (auto simp: is_complete_site_def list_all_iff dict_keys_def map_of_eq_None_iff)

theorem is_complete_site_presence_witness:
  "is_complete_site hall Site_model_fields \<and>
   set Site_model_fields \<subseteq> set (dict_keys hall) \<and>
   map_of hall ''reviews'' = Some (PInt 0) \<and> \<not> truthy (PInt 0) \<and>
   map_of hall ''rating'' = Some (PFloat 0) \<and> \<not> truthy (PFloat 0) \<and>
   set (dict_keys nameless_hall) = set (dict_keys hall) \<and>
   is_complete_site nameless_hall Site_model_fields = is_complete_site hall Site_model_fields"
  using is_complete_site_presence [of hall Site_model_fields nameless_hall]
  by (simp add: hall_def nameless_hall_def Site_model_fields_def dict_keys_def)

section \<open>Filtering the candidates\<close>

text \<open>
  Claim C4. A candidate that lacks a required field once its benign error flag is
  stripped (for example the description) is skipped: neither \<^verbatim>\<open>complete_info\<close> nor
  \<^verbatim>\<open>seen_names\<close> changes, only the line that shows the candidate is printed, and the
  candidates after it are processed as if it had not been there. So a complete candidate
  that comes next, whose name is not in \<^verbatim>\<open>seen_names\<close>, is accepted, whatever the name
  of the skipped one was, and a page that holds the incomplete candidate alone returns
  no record and the set \<^verbatim>\<open>seen_names\<close> it was given.
\<close>

theorem incomplete_candidate_leaves_no_trace:
  assumes "\<not> is_complete_site (strip_error d) required_keys"
  shows "process_info required_keys (PDict d) (complete_info, seen_names, w) =
           (None, complete_info, seen_names, print_line (ProcessingData (PDict d)) w) \<and>
         process_data required_keys (PDict d # rest) (complete_info, seen_names, w) =
           process_data required_keys rest
             (complete_info, seen_names, print_line (ProcessingData (PDict d)) w) \<and>
         (is_complete_site (strip_error d') required_keys \<and> name_key (strip_error d') = Some k
            \<and> k \<notin> seen_names \<longrightarrow>
          process_data required_keys [PDict d, PDict d'] (complete_info, seen_names, w) =
            (None, complete_info @ [strip_error d'], insert k seen_names,
             print_line (ProcessingData (PDict d')) (print_line (ProcessingData (PDict d)) w))) \<and>
         (json_loads payload = Some (PList [PDict d]) \<longrightarrow>
          process_extracted json_loads page_number required_keys payload seen_names w =
            (Inr ([], False), seen_names,
             print_line (NoCompleteVenues page_number)
               (print_line (ProcessingData (PDict d))
                  (print_line (ExtractedData (PList [PDict d])) w))))"
proof -
  have skip: "process_info required_keys (PDict d) (ci, seen_names, wl) =
           (None, ci, seen_names, print_line (ProcessingData (PDict d)) wl)" for ci wl
    using assms by (simp add: process_info.simps Let_def)
  have accept: "process_info required_keys (PDict d') (complete_info, seen_names, wl) =
           (None, complete_info @ [strip_error d'], insert k seen_names,
            print_line (ProcessingData (PDict d')) wl)"
    if "is_complete_site (strip_error d') required_keys" "name_key (strip_error d') = Some k"
      "k \<notin> seen_names" for wl
    using that
    by (auto simp: process_info.simps Let_def name_key_def is_duplicate_def split: option.splits)
  show ?thesis
    by (auto simp: skip accept process_extracted_def Let_def)
qed

text \<open>
  The venue without description and then the complete venue of the same name, on one page
  and on two successive pages.
\<close>

theorem incomplete_candidate_leaves_no_trace_witness:
  "\<not> is_complete_site (strip_error hall_no_description) Site_model_fields \<and>
   is_complete_site (strip_error hall) Site_model_fields \<and>
   name_key (strip_error hall_no_description) = Some (KStr ''Hall'') \<and>
   name_key (strip_error hall) = Some (KStr ''Hall'') \<and>
   KStr ''Hall'' \<notin> {} \<and>
   process_data Site_model_fields [PDict hall_no_description, PDict hall] ([], {}, empty_world) =
     (None, [hall], {KStr ''Hall''},
      \<lparr>requests = [],
       stdout = [ProcessingData (PDict hall_no_description), ProcessingData (PDict hall)],
       files = Map.empty, writable = any_path\<rparr>) \<and>
   fst (run_calls example_loads
          (listing_crawler [(''http://v.test?page=1'', ''[hall_no_description]''),
                            (''http://v.test?page=2'', ''[hall]'')])
          [(1, ''http://v.test'', ''.venue'', ''llm'', ''s1'', Site_model_fields),
           (2, ''http://v.test'', ''.venue'', ''llm'', ''s1'', Site_model_fields)]
          [] {} empty_world) = [hall] \<and>
   example_loads ''[hall_no_description]'' = Some (PList [PDict hall_no_description]) \<and>
   process_extracted example_loads 1 Site_model_fields ''[hall_no_description]'' {} empty_world =
     (Inr ([], False), {},
      \<lparr>requests = [],
       stdout = [ExtractedData (PList [PDict hall_no_description]),
                 ProcessingData (PDict hall_no_description), NoCompleteVenues 1],
       files = Map.empty, writable = any_path\<rparr>)"
  using incomplete_candidate_leaves_no_trace
    [where d = hall_no_description and required_keys = Site_model_fields and d' = hall
       and k = "KStr ''Hall''" and seen_names = "{}" and complete_info = "[]"
       and w = empty_world and rest = "[]" and json_loads = example_loads
       and payload = "''[hall_no_description]''" and page_number = 1]
  by (simp add: model_defs example_defs)

text \<open>
  Claim C5. After a call of \<^verbatim>\<open>fetch_and_process_page\<close> the set \<^verbatim>\<open>seen_names\<close> contains
  the set passed in, and when the call returns it is that set plus exactly the names of
  the returned records, each of which has a hashable name. In the loop itself, whether it
  ends or raises, the set is the one it started from plus the names of the records
  appended to \<^verbatim>\<open>complete_info\<close>: nothing is removed, and a skipped candidate adds
  nothing.
\<close>

theorem seen_names_insert_only:
  "(fetch_and_process_page json_loads crawler page_number base_url css_selector llm_strategy
      session_id required_keys seen_names w = (out, seen_names', w') \<longrightarrow>
    seen_names \<subseteq> seen_names' \<and>
    (\<forall>recs flag. out = Inr (recs, flag) \<longrightarrow>
       seen_names' = seen_names \<union> record_names recs \<and> (\<forall>d \<in> set recs. name_key d \<noteq> None))) \<and>
   (process_data required_keys infos ([], seen_names, wl) = (e, complete_info, seen_after, wl') \<longrightarrow>
    seen_after = seen_names \<union> record_names complete_info)"
proof (intro conjI impI)
  assume "fetch_and_process_page json_loads crawler page_number base_url css_selector llm_strategy
      session_id required_keys seen_names w = (out, seen_names', w')"
  then have ok: "call_ok required_keys seen_names out seen_names'"
    by (rule fetch_and_process_page_ok)
  then show "seen_names \<subseteq> seen_names'"
    by (simp add: call_ok_def)
  from ok show "\<forall>recs flag. out = Inr (recs, flag) \<longrightarrow>
       seen_names' = seen_names \<union> record_names recs \<and> (\<forall>d \<in> set recs. name_key d \<noteq> None)"
    by (simp add: call_ok_def fresh_records_def)
next
  assume "process_data required_keys infos ([], seen_names, wl) =
            (e, complete_info, seen_after, wl')"
  from process_data_acc [OF this] show "seen_after = seen_names \<union> record_names complete_info"
    by auto
qed

text \<open>
  A page with the venue, the venue again, the venue without description and the venue of
  the empty name, when \<^verbatim>\<open>Old\<close> was seen before.
\<close>

theorem seen_names_insert_only_witness:
  "fst (fetch_and_process_page example_loads
          (listing_crawler
             [(''http://v.test?page=1'', ''[hall, hall, hall_no_description, nameless_hall]'')])
          1 ''http://v.test'' ''.venue'' ''llm'' ''s1'' Site_model_fields {KStr ''Old''}
          empty_world) = Inr ([hall, nameless_hall], False) \<and>
   fst (snd (fetch_and_process_page example_loads
          (listing_crawler
             [(''http://v.test?page=1'', ''[hall, hall, hall_no_description, nameless_hall]'')])
          1 ''http://v.test'' ''.venue'' ''llm'' ''s1'' Site_model_fields {KStr ''Old''}
          empty_world)) = {KStr ''Old''} \<union> record_names [hall, nameless_hall] \<and>
   record_names [hall, nameless_hall] = {KStr ''Hall'', KStr []}"
  using seen_names_insert_only
    [where json_loads = example_loads
       and crawler = "listing_crawler
             [(''http://v.test?page=1'', ''[hall, hall, hall_no_description, nameless_hall]'')]"
       and page_number = 1 and base_url = "''http://v.test''" and css_selector = "''.venue''"
       and llm_strategy = "''llm''" and session_id = "''s1''"
       and required_keys = Site_model_fields and seen_names = "{KStr ''Old''}"
       and w = empty_world
       and out = "Inr ([hall, nameless_hall], False)"
       and seen_names' = "{KStr ''Old'', KStr ''Hall'', KStr []}"
       and infos = "[]" and wl = empty_world and e = None and complete_info = "[]"
       and seen_after = "{KStr ''Old''}" and wl' = empty_world]
  by (simp add: model_defs example_defs) blast

text \<open>
  Claim C7, as the code has it. In a run that starts from the empty \<^verbatim>\<open>seen_names\<close>,
  every accepted record has a name, the names are hashable and pairwise different (as
  Python compares them), and all are in \<^verbatim>\<open>seen_names\<close>. The name may be the empty string.
\<close>

theorem accepted_names_distinct:
  assumes "run_calls json_loads crawler calls [] {} w = (all_venues, seen_names, w')"
  shows "distinct (map name_key all_venues) \<and> (\<forall>d \<in> set all_venues. name_key d \<noteq> None) \<and>
         record_names all_venues \<subseteq> seen_names"
  using run_calls_inv [OF assms] by (simp add: record_names_Nil)

theorem accepted_names_distinct_witness:
  "fst (run_calls example_loads
          (listing_crawler
             [(''http://v.test?page=1'', ''[hall]''),
              (''http://v.test?page=2'', ''[hall, hall, hall_no_description, nameless_hall]'')])
          [(1, ''http://v.test'', ''.venue'', ''llm'', ''s1'', Site_model_fields),
           (2, ''http://v.test'', ''.venue'', ''llm'', ''s1'', Site_model_fields),
           (3, ''http://v.test'', ''.venue'', ''llm'', ''s1'', Site_model_fields)]
          [] {} empty_world) = [hall, nameless_hall] \<and>
   distinct (map name_key [hall, nameless_hall]) \<and>
   map name_key [hall, nameless_hall] = [Some (KStr ''Hall''), Some (KStr [])]"
  using accepted_names_distinct
    [where json_loads = example_loads
       and crawler = "listing_crawler
             [(''http://v.test?page=1'', ''[hall]''),
              (''http://v.test?page=2'', ''[hall, hall, hall_no_description, nameless_hall]'')]"
       and calls = "[(1, ''http://v.test'', ''.venue'', ''llm'', ''s1'', Site_model_fields),
           (2, ''http://v.test'', ''.venue'', ''llm'', ''s1'', Site_model_fields),
           (3, ''http://v.test'', ''.venue'', ''llm'', ''s1'', Site_model_fields)]"
       and w = empty_world and all_venues = "[hall, nameless_hall]"
       and seen_names = "{KStr ''Hall'', KStr []}"
       and w' = "snd (snd (run_calls example_loads
          (listing_crawler
             [(''http://v.test?page=1'', ''[hall]''),
              (''http://v.test?page=2'', ''[hall, hall, hall_no_description, nameless_hall]'')])
          [(1, ''http://v.test'', ''.venue'', ''llm'', ''s1'', Site_model_fields),
           (2, ''http://v.test'', ''.venue'', ''llm'', ''s1'', Site_model_fields),
           (3, ''http://v.test'', ''.venue'', ''llm'', ''s1'', Site_model_fields)]
          [] {} empty_world))"]
  by (simp add: model_defs example_defs)

text \<open>
  The claim that every accepted name is non-empty fails: a complete venue whose name is
  the empty string is accepted.
\<close>

theorem accepted_names_counterexample:
  "fst (run_calls example_loads (listing_crawler [(''http://v.test?page=1'', ''[nameless_hall]'')])
          [(1, ''http://v.test'', ''.venue'', ''llm'', ''s1'', Site_model_fields)]
          [] {} empty_world) = [nameless_hall] \<and>
   map_of nameless_hall ''name'' = Some (PStr [])"
  by (simp add: model_defs example_defs)

text \<open>
  Claim C8. For a candidate whose error key is \<^verbatim>\<open>false\<close> and which is complete without
  that key, with a hashable name not seen before: the key is popped before the
  completeness check, the check passes, and the accepted record is the candidate without
  the key. Saving that record never raises for the popped key: when the candidate has no
  other key outside the seven fields, the path can be opened for writing and the row can
  be encoded, the file holds the header and one row of the seven fields.
\<close>

theorem benign_error_flag_stripped:
  assumes "map_of d ''error'' = Some (PBool False)"
    and "is_complete_site (dict_pop ''error'' d) required_keys"
    and "map_of d ''name'' = Some name"
    and "hash_key name = Some k"
    and "k \<notin> seen_names"
  shows "strip_error d = dict_pop ''error'' d \<and>
         ''error'' \<notin> set (dict_keys (dict_pop ''error'' d)) \<and>
         process_info required_keys (PDict d) (complete_info, seen_names, w) =
           (None, complete_info @ [dict_pop ''error'' d], insert k seen_names,
            print_line (ProcessingData (PDict d)) w) \<and>
         (set (dict_keys d) \<subseteq> insert ''error'' (set Site_model_fields) \<longrightarrow>
          dict_to_list Site_model_fields (dict_pop ''error'' d) =
            Inr (row_cells Site_model_fields (dict_pop ''error'' d))) \<and>
         (set (dict_keys d) \<subseteq> insert ''error'' (set Site_model_fields)
            \<and> can_open w filename
            \<and> row_encodable (row_cells Site_model_fields (dict_pop ''error'' d)) \<longrightarrow>
          save_keys_to_csv [dict_pop ''error'' d] filename w =
            (Inr (),
             w\<lparr>files := (files w)(filename \<mapsto>
                  [map PStr Site_model_fields,
                   row_cells Site_model_fields (dict_pop ''error'' d)]),
               stdout := stdout w @ [SavedSites 1 filename]\<rparr>))"
proof -
  have strip: "strip_error d = dict_pop ''error'' d"
    using assms(1) by (simp add: strip_error_def)
  have gone: "''error'' \<notin> set (dict_keys (dict_pop ''error'' d))"
    by (auto simp: dict_keys_def dict_pop_def)
  have name: "map_of (dict_pop ''error'' d) ''name'' = Some name"
    using assms(3) by (simp add: map_of_dict_pop)
  have step: "process_info required_keys (PDict d) (complete_info, seen_names, w) =
           (None, complete_info @ [dict_pop ''error'' d], insert k seen_names,
            print_line (ProcessingData (PDict d)) w)"
    using assms(2,4,5) name by (simp add: process_info.simps strip Let_def is_duplicate_def)
  have conf: "keys_conform Site_model_fields (dict_pop ''error'' d)"
    if "set (dict_keys d) \<subseteq> insert ''error'' (set Site_model_fields)"
    using that by (auto simp: keys_conform_iff dict_keys_def dict_pop_def)
  have row: "dict_to_list Site_model_fields (dict_pop ''error'' d) =
            Inr (row_cells Site_model_fields (dict_pop ''error'' d))"
    if "set (dict_keys d) \<subseteq> insert ''error'' (set Site_model_fields)"
    using conf [OF that] by (simp add: dict_to_list_def)
  have save: "save_keys_to_csv [dict_pop ''error'' d] filename w =
            (Inr (),
             w\<lparr>files := (files w)(filename \<mapsto>
                  [map PStr Site_model_fields,
                   row_cells Site_model_fields (dict_pop ''error'' d)]),
               stdout := stdout w @ [SavedSites 1 filename]\<rparr>)"
    if keys: "set (dict_keys d) \<subseteq> insert ''error'' (set Site_model_fields)"
      and op: "can_open w filename"
      and enc: "row_encodable (row_cells Site_model_fields (dict_pop ''error'' d))"
    using conf [OF keys] enc
    by (simp add: save_keys_to_csv_def open_w_ok [OF op] dict_to_list_def Let_def print_line_def)
  show ?thesis
    using strip gone step row save by simp
qed

theorem benign_error_flag_stripped_witness:
  "map_of benign_hall ''error'' = Some (PBool False) \<and>
   is_complete_site (dict_pop ''error'' benign_hall) Site_model_fields \<and>
   map_of benign_hall ''name'' = Some (PStr ''Hall'') \<and>
   hash_key (PStr ''Hall'') = Some (KStr ''Hall'') \<and>
   KStr ''Hall'' \<notin> {} \<and>
   set (dict_keys benign_hall) \<subseteq> insert ''error'' (set Site_model_fields) \<and>
   can_open empty_world ''venues.csv'' \<and>
   row_encodable (row_cells Site_model_fields (dict_pop ''error'' benign_hall)) \<and>
   strip_error benign_hall = hall \<and>
   process_info Site_model_fields (PDict benign_hall) ([], {}, empty_world) =
     (None, [hall], {KStr ''Hall''},
      \<lparr>requests = [], stdout = [ProcessingData (PDict benign_hall)], files = Map.empty,
       writable = any_path\<rparr>) \<and>
   save_keys_to_csv [hall] ''venues.csv'' empty_world =
     (Inr (),
      \<lparr>requests = [], stdout = [SavedSites 1 ''venues.csv''],
       files = [''venues.csv'' \<mapsto>
         [[PStr ''name'', PStr ''location'', PStr ''price'', PStr ''capacity'', PStr ''rating'',
           PStr ''reviews'', PStr ''description''],
          [PStr ''Hall'', PStr ''Leeds'', PStr ''100'', PStr ''50'', PFloat 0, PInt 0,
           PStr ''A hall.'']]],
       writable = any_path\<rparr>) \<and>
   fst (fetch_and_process_page example_loads
          (listing_crawler [(''http://v.test?page=1'', ''[benign_hall]'')])
          1 ''http://v.test'' ''.venue'' ''llm'' ''s1'' Site_model_fields {} empty_world) =
     Inr ([hall], False)"
  using benign_error_flag_stripped
    [where d = benign_hall and required_keys = Site_model_fields and name = "PStr ''Hall''"
       and k = "KStr ''Hall''" and seen_names = "{}" and complete_info = "[]"
       and w = empty_world and filename = "''venues.csv''"]
  by (simp add: model_defs example_defs)

text \<open>
  Claim C10. When \<^verbatim>\<open>name\<close> is among the required keys, neither the loop body nor a
  whole call of \<^verbatim>\<open>fetch_and_process_page\<close> raises \<^verbatim>\<open>KeyError\<close>. When it is not, a
  candidate without a name key that passes the completeness check raises \<^verbatim>\<open>KeyError\<close>
  at the lookup, and there is always such a candidate: the one that maps each required
  key to \<^verbatim>\<open>None\<close>.
\<close>

theorem name_lookup_guarded:
  "(''name'' \<in> set required_keys \<longrightarrow>
      fst (fetch_and_process_page json_loads crawler page_number base_url css_selector
             llm_strategy session_id required_keys seen_names w) \<noteq> Inl KeyError \<and>
      fst (process_info required_keys info (complete_info, seen_names, w)) \<noteq> Some KeyError) \<and>
   (''name'' \<notin> set required_keys \<and> map_of d ''name'' = None
      \<and> is_complete_site (strip_error d) required_keys \<longrightarrow>
      process_info required_keys (PDict d) (complete_info, seen_names, w) =
        (Some KeyError, complete_info, seen_names, print_line (ProcessingData (PDict d)) w)) \<and>
   (''name'' \<notin> set required_keys \<longrightarrow>
      map_of (map (\<lambda>key. (key, PNone)) required_keys) ''name'' = None \<and>
      fst (process_info required_keys (PDict (map (\<lambda>key. (key, PNone)) required_keys))
             (complete_info, seen_names, w)) = Some KeyError)"
proof (intro conjI impI)
  assume "''name'' \<in> set required_keys"
  then show "fst (fetch_and_process_page json_loads crawler page_number base_url css_selector
             llm_strategy session_id required_keys seen_names w) \<noteq> Inl KeyError"
    using fetch_and_process_page_no_KeyError
    by (metis prod.collapse)
next
  assume "''name'' \<in> set required_keys"
  then show "fst (process_info required_keys info (complete_info, seen_names, w)) \<noteq> Some KeyError"
    by (rule process_info_no_KeyError)
next
  assume a: "''name'' \<notin> set required_keys \<and> map_of d ''name'' = None
      \<and> is_complete_site (strip_error d) required_keys"
  then have "map_of (strip_error d) ''name'' = None"
    by (simp add: map_of_strip_error)
  with a show "process_info required_keys (PDict d) (complete_info, seen_names, w) =
        (Some KeyError, complete_info, seen_names, print_line (ProcessingData (PDict d)) w)"
    by (simp add: process_info.simps Let_def)
next
  let ?d = "map (\<lambda>key. (key, PNone)) required_keys"
  assume a: "''name'' \<notin> set required_keys"
  have look: "map_of ?d key = (if key \<in> set required_keys then Some PNone else None)" for key
    by (induction required_keys) auto
  show noname: "map_of ?d ''name'' = None"
    using a by (simp add: look)
  have strip: "strip_error ?d = ?d"
    by (simp add: strip_error_def look)
  have complete: "is_complete_site ?d required_keys"
    by (simp add: is_complete_site_def list_all_iff look)
  show "fst (process_info required_keys (PDict ?d) (complete_info, seen_names, w)) = Some KeyError"
    using noname complete by (simp add: process_info.simps strip Let_def)
qed

text \<open>
  A candidate that holds a location only: skipped when the required keys are the seven
  fields, a \<^verbatim>\<open>KeyError\<close> when the only required key is the location.
\<close>

theorem name_lookup_guarded_witness:
  "''name'' \<in> set Site_model_fields \<and>
   fst (fetch_and_process_page example_loads
          (listing_crawler [(''http://v.test?page=1'', ''[leeds]'')])
          1 ''http://v.test'' ''.venue'' ''llm'' ''s1'' Site_model_fields {} empty_world) =
     Inr ([], False) \<and>
   ''name'' \<notin> set [''location''] \<and>
   map_of [(''location'', PStr ''Leeds'')] ''name'' = None \<and>
   is_complete_site (strip_error [(''location'', PStr ''Leeds'')]) [''location''] \<and>
   process_info [''location''] (PDict [(''location'', PStr ''Leeds'')]) ([], {}, empty_world) =
     (Some KeyError, [], {},
      \<lparr>requests = [], stdout = [ProcessingData (PDict [(''location'', PStr ''Leeds'')])],
       files = Map.empty, writable = any_path\<rparr>) \<and>
   fst (process_info [''location''] (PDict [(''location'', PNone)]) ([], {}, empty_world)) =
     Some KeyError \<and>
   fst (fetch_and_process_page example_loads
          (listing_crawler [(''http://v.test?page=1'', ''[leeds]'')])
          1 ''http://v.test'' ''.venue'' ''llm'' ''s1'' [''location''] {} empty_world) =
     Inl KeyError"
  using name_lookup_guarded
    [where required_keys = "[''location'']" and d = "[(''location'', PStr ''Leeds'')]"
       and complete_info = "[]" and seen_names = "{}" and w = empty_world]
    name_lookup_guarded
    [where required_keys = Site_model_fields and json_loads = example_loads
       and crawler = "listing_crawler [(''http://v.test?page=1'', ''[leeds]'')]"
       and page_number = 1 and base_url = "''http://v.test''" and css_selector = "''.venue''"
       and llm_strategy = "''llm''" and session_id = "''s1''" and seen_names = "{}"
       and w = empty_world]
  by (simp add: model_defs example_defs)

section \<open>The failing probe\<close>

text \<open>
  Claim C6. When the probe fails, \<^verbatim>\<open>check_no_results\<close> returns false and the extraction
  fetch follows, but nothing is printed: the \<^verbatim>\<open>else\<close> that prints the error line
  belongs to the test for the marker phrase, not to the test of \<^verbatim>\<open>result.success\<close>. The
  line is printed instead when the probe succeeds on a page without the marker.
\<close>

theorem probe_failure_not_logged:
  "check_no_results (failing_probe_crawler [(''http://v.test?page=1'', ''[hall]'')])
     ''http://v.test?page=1'' ''s1'' empty_world =
     (Inr False,
      \<lparr>requests = [\<lparr>req_url = ''http://v.test?page=1'', req_cache_mode = BYPASS,
                     req_session_id = ''s1'', req_extraction_strategy = None,
                     req_css_selector = None\<rparr>],
       stdout = [], files = Map.empty, writable = any_path\<rparr>) \<and>
   fetch_and_process_page example_loads
     (failing_probe_crawler [(''http://v.test?page=1'', ''[hall]'')])
     1 ''http://v.test'' ''.venue'' ''llm'' ''s1'' Site_model_fields {} empty_world =
     (Inr ([hall], False), {KStr ''Hall''},
      \<lparr>requests = [\<lparr>req_url = ''http://v.test?page=1'', req_cache_mode = BYPASS,
                     req_session_id = ''s1'', req_extraction_strategy = None,
                     req_css_selector = None\<rparr>,
                   \<lparr>req_url = ''http://v.test?page=1'', req_cache_mode = BYPASS,
                     req_session_id = ''s1'', req_extraction_strategy = Some ''llm'',
                     req_css_selector = Some ''.venue''\<rparr>],
       stdout = [LoadingPage 1, ExtractedData (PList [PDict hall]), ProcessingData (PDict hall),
                 ExtractedVenues 1 1],
       files = Map.empty, writable = any_path\<rparr>) \<and>
   stdout (snd (snd (fetch_and_process_page example_loads
     (listing_crawler [(''http://v.test?page=1'', ''[hall]'')])
     1 ''http://v.test'' ''.venue'' ''llm'' ''s1'' Site_model_fields {} empty_world))) =
     [LoadingPage 1, NoResultsCheckError None, ExtractedData (PList [PDict hall]),
      ProcessingData (PDict hall), ExtractedVenues 1 1]"
  by (simp add: model_defs example_defs)

end
